theory Spec2Isabelle
  imports Main
begin

section \<open>JavaScript values of the request bodies and of the client's replies\<close>

text \<open>
  The server (\<^verbatim>\<open>server.js\<close>) receives JSON bodies and talks to a messaging client
  (\<^verbatim>\<open>whatsapp-web.js\<close>). A JavaScript value is modelled by \<open>jsvalue\<close>: \<open>JUndefined\<close> is
  an absent field, numbers are the integers (the only numbers the API documents), a
  string is the list of the bytes of its UTF-8 encoding, and an object is the
  association list of its own properties.
\<close>

datatype jsvalue =
    JUndefined
  | JNull
  | JBool bool
  | JNum int
  | JStr string
  | JArr "jsvalue list"
  | JObj "(string \<times> jsvalue) list"

datatype jstype = TUndefined | TObject | TBoolean | TNumber | TString

text \<open>The operator \<^verbatim>\<open>typeof\<close>: \<^verbatim>\<open>null\<close> and arrays are of type \<^verbatim>\<open>'object'\<close>.\<close>

fun typeof :: "jsvalue \<Rightarrow> jstype" where
  "typeof JUndefined = TUndefined"
| "typeof JNull = TObject"
| "typeof (JBool b) = TBoolean"
| "typeof (JNum n) = TNumber"
| "typeof (JStr s) = TString"
| "typeof (JArr vs) = TObject"
| "typeof (JObj kvs) = TObject"

text \<open>Truthiness, as \<^verbatim>\<open>!v\<close>, \<^verbatim>\<open>a || b\<close> and \<^verbatim>\<open>a && b\<close> test it.\<close>

fun truthy :: "jsvalue \<Rightarrow> bool" where
  "truthy JUndefined = False"
| "truthy JNull = False"
| "truthy (JBool b) = b"
| "truthy (JNum n) = (n \<noteq> 0)"
| "truthy (JStr s) = (s \<noteq> [])"
| "truthy (JArr vs) = True"
| "truthy (JObj kvs) = True"

text \<open>
  A thrown value is an \<^verbatim>\<open>Error\<close> object; the handlers read its \<^verbatim>\<open>message\<close> only.
  \<open>TypeError v k\<close> is the error of reading property \<open>k\<close> of \<open>v\<close> when \<open>v\<close> is
  \<^verbatim>\<open>null\<close> or \<^verbatim>\<open>undefined\<close>; \<open>ClientError m\<close> is an error raised by the messaging
  client or by the file system, with message \<open>m\<close>.
\<close>

datatype js_error = TypeError jsvalue string | ClientError string

fun error_message :: "js_error \<Rightarrow> string" where
  "error_message (ClientError m) = m"
| "error_message (TypeError v k) =
     ''Cannot read properties of '' @ (if v = JNull then ''null'' else ''undefined'')
       @ '' (reading '' @ [CHR 0x27] @ k @ [CHR 0x27] @ '')''"

text \<open>Property access \<^verbatim>\<open>v.k\<close>: it throws on \<^verbatim>\<open>null\<close> and \<^verbatim>\<open>undefined\<close>.\<close>

fun get_prop :: "jsvalue \<Rightarrow> string \<Rightarrow> js_error + jsvalue" where
  "get_prop JUndefined k = Inl (TypeError JUndefined k)"
| "get_prop JNull k = Inl (TypeError JNull k)"
| "get_prop (JObj kvs) k = (case map_of kvs k of None \<Rightarrow> Inr JUndefined | Some v \<Rightarrow> Inr v)"
| "get_prop v k = Inr JUndefined"

text \<open>Optional chaining \<^verbatim>\<open>v?.k\<close>: \<^verbatim>\<open>undefined\<close> on \<^verbatim>\<open>null\<close> and \<^verbatim>\<open>undefined\<close>.\<close>

fun opt_prop :: "jsvalue \<Rightarrow> string \<Rightarrow> jsvalue" where
  "opt_prop (JObj kvs) k = (case map_of kvs k of None \<Rightarrow> JUndefined | Some v \<Rightarrow> v)"
| "opt_prop v k = JUndefined"

section \<open>String operations\<close>

text \<open>
  \<^verbatim>\<open>String.prototype.trim\<close> removes the white space and line terminators of
  ECMAScript from both ends. In UTF-8 they are the byte sequences below (TAB, LF, VT,
  FF, CR, SP, U+00A0, U+1680, U+2000 to U+200A, U+2028, U+2029, U+202F, U+205F,
  U+3000, U+FEFF).
\<close>

definition whitespace_seqs :: "string list" where
  "whitespace_seqs =
     [[CHR 0x09], [CHR 0x0A], [CHR 0x0B], [CHR 0x0C], [CHR 0x0D], [CHR 0x20],
      [CHR 0xC2, CHR 0xA0],
      [CHR 0xE1, CHR 0x9A, CHR 0x80],
      [CHR 0xE2, CHR 0x80, CHR 0x80], [CHR 0xE2, CHR 0x80, CHR 0x81],
      [CHR 0xE2, CHR 0x80, CHR 0x82], [CHR 0xE2, CHR 0x80, CHR 0x83],
      [CHR 0xE2, CHR 0x80, CHR 0x84], [CHR 0xE2, CHR 0x80, CHR 0x85],
      [CHR 0xE2, CHR 0x80, CHR 0x86], [CHR 0xE2, CHR 0x80, CHR 0x87],
      [CHR 0xE2, CHR 0x80, CHR 0x88], [CHR 0xE2, CHR 0x80, CHR 0x89],
      [CHR 0xE2, CHR 0x80, CHR 0x8A],
      [CHR 0xE2, CHR 0x80, CHR 0xA8], [CHR 0xE2, CHR 0x80, CHR 0xA9],
      [CHR 0xE2, CHR 0x80, CHR 0xAF],
      [CHR 0xE2, CHR 0x81, CHR 0x9F],
      [CHR 0xE3, CHR 0x80, CHR 0x80],
      [CHR 0xEF, CHR 0xBB, CHR 0xBF]]"

definition startsWith :: "string \<Rightarrow> string \<Rightarrow> bool" where
  "startsWith s p = (take (length p) s = p)"

definition endsWith :: "string \<Rightarrow> string \<Rightarrow> bool" where
  "endsWith s p = (length p \<le> length s \<and> drop (length s - length p) s = p)"

text \<open>
  \<open>strip_leading seqs s\<close> removes from the front of \<open>s\<close> every occurrence of one of
  the sequences \<open>seqs\<close>, until none of them starts \<open>s\<close>.
\<close>

function strip_leading :: "string list \<Rightarrow> string \<Rightarrow> string" where
  "strip_leading seqs s =
     (case find (startsWith s) seqs of
        None \<Rightarrow> s
      | Some w \<Rightarrow> if w = [] then s else strip_leading seqs (drop (length w) s))"
  by pat_completeness auto
termination
proof (relation "measure (\<lambda>(seqs, s). length s)")
  show "wf (measure (\<lambda>(seqs, s). length s))" by simp
next
  fix seqs :: "string list" and s w :: string
  assume f: "find (startsWith s) seqs = Some w" and ne: "w \<noteq> []"
  from f have "startsWith s w" by (auto simp: find_Some_iff)
  then have "take (length w) s = w" by (simp add: startsWith_def)
  with ne have "s \<noteq> []" by auto
  with ne show "((seqs, drop (length w) s), (seqs, s)) \<in> measure (\<lambda>(seqs, s). length s)"
    by (cases w) auto
qed

declare strip_leading.simps [simp del]

definition trim :: "string \<Rightarrow> string" where
  "trim s = rev (strip_leading (map rev whitespace_seqs) (rev (strip_leading whitespace_seqs s)))"

text \<open>The class \<^verbatim>\<open>\d\<close> of a regular expression: the ASCII digits.\<close>

definition is_digit :: "char \<Rightarrow> bool" where
  "is_digit c = (c \<in> set ''0123456789'')"

text \<open>
  \<^verbatim>\<open>s.replace(p, '')\<close> with a string pattern: the first occurrence of \<open>p\<close> is
  removed, the others stay.
\<close>

fun remove_first :: "string \<Rightarrow> string \<Rightarrow> string" where
  "remove_first p [] = []"
| "remove_first p (c # cs) =
     (if startsWith (c # cs) p then drop (length p) (c # cs) else c # remove_first p cs)"

section \<open>The recipient resolver\<close>

text \<open>
  \<^verbatim>\<open>
  function normalizePhoneNumber(input) {
    if (typeof input !== 'string') return '';
    return input.replace(/\D/g, '');
  }
  \<close>
\<close>

fun normalizePhoneNumber :: "jsvalue \<Rightarrow> string" where
  "normalizePhoneNumber (JStr s) = filter is_digit s"
| "normalizePhoneNumber v = []"

text \<open>
  The object returned by \<^verbatim>\<open>parseChatTarget\<close> and \<^verbatim>\<open>resolveChatId\<close>: either
  \<^verbatim>\<open>{ error }\<close> or \<^verbatim>\<open>{ chatId, normalizedNumber, isDirectUser }\<close>, where
  \<^verbatim>\<open>isDirectUser\<close> is absent (\<open>None\<close>) in the objects \<^verbatim>\<open>resolveChatId\<close> builds itself.
\<close>

datatype chat_target =
    TargetError string
  | Target (chatId: jsvalue) (normalizedNumber: string) (isDirectUser: "bool option")

definition parseChatTarget :: "jsvalue \<Rightarrow> chat_target" where
  "parseChatTarget input =
     (case input of
        JStr s \<Rightarrow>
          (let raw = trim s in
           if raw = [] then TargetError ''Nomor tujuan tidak boleh kosong''
           else if CHR ''@'' \<in> set raw
             then Target (JStr raw) raw (Some (endsWith raw ''@c.us''))
           else
             (let n = normalizePhoneNumber (JStr raw) in
              if n = [] then TargetError ''Format nomor tidak valid''
              else Target (JStr (n @ ''@c.us'')) n (Some True)))
      | _ \<Rightarrow> TargetError ''Nomor tujuan harus berupa string'')"

section \<open>The messaging client and the trace of effects\<close>

text \<open>
  The client is external. Its calls are recorded in a trace, in the order they are
  made, together with the pacing delays of the batch loop. A client is any function
  from the trace so far and the call to the reply: the call throws, or it returns
  a value.
\<close>

datatype client_call =
    GetNumberId string
  | SendMessage jsvalue jsvalue
  | Destroy

datatype event = Call client_call | Sleep int

datatype reply = Throws string | Returns jsvalue

type_synonym client = "event list \<Rightarrow> client_call \<Rightarrow> reply"

text \<open>The pacing delays among the effects of a trace.\<close>

fun is_sleep :: "event \<Rightarrow> bool" where
  "is_sleep (Sleep d) = True"
| "is_sleep (Call c) = False"

text \<open>
  \<^verbatim>\<open>resolveChatId\<close> (lines 55 to 87). Only a direct user is validated with
  \<^verbatim>\<open>client.getNumberId\<close>; when that call throws, the identifier is built from the
  number.
\<close>

definition resolveChatId :: "client \<Rightarrow> jsvalue \<Rightarrow> event list \<Rightarrow> chat_target \<times> event list" where
  "resolveChatId cl input t =
     (case parseChatTarget input of
        TargetError e \<Rightarrow> (TargetError e, t)
      | Target cid nn direct \<Rightarrow>
          if direct \<noteq> Some True then (Target cid nn direct, t)
          else
            (let n = normalizePhoneNumber (JStr (remove_first ''@c.us'' nn)) in
             if n = [] then (TargetError ''Format nomor tidak valid'', t)
             else
               (case cl t (GetNumberId n) of
                  Throws e \<Rightarrow>
                    (Target (JStr (n @ ''@c.us'')) n None, t @ [Call (GetNumberId n)])
                | Returns numberId \<Rightarrow>
                    (let serialized =
                       (if typeof numberId = TString then numberId
                        else opt_prop numberId ''_serialized'')
                     in
                     if \<not> truthy serialized
                       then (TargetError (''Nomor '' @ n @ '' tidak terdaftar di WhatsApp''),
                             t @ [Call (GetNumberId n)])
                       else (Target serialized n None, t @ [Call (GetNumberId n)])))))"

section \<open>The session state and the lifecycle handlers\<close>

text \<open>
  The process-wide variables of the server: \<^verbatim>\<open>client\<close> (only whether it is non-null
  matters), \<^verbatim>\<open>clientReady\<close> and \<^verbatim>\<open>qrCodeData\<close>; with them the two pieces of the
  environment that the reset operations change: whether the session directory
  \<^verbatim>\<open>.wwebjs_auth\<close> exists, and how many re-initialisations \<^verbatim>\<open>setTimeout\<close> has
  scheduled.
\<close>

record server_state =
  clientPresent :: bool
  clientReady :: bool
  qrCodeData :: "string option"
  sessionDir :: bool
  pendingInit :: nat

text \<open>
  The steps of the handlers that \<^verbatim>\<open>initializeWhatsApp\<close> registers (lines 134 to
  181). All handlers but one run to their end at once. The handler of \<^verbatim>\<open>qr\<close> is
  asynchronous: \<open>Qr\<close> is its first part, which logs, starts \<^verbatim>\<open>qrcode.toDataURL\<close> and
  is suspended at the \<^verbatim>\<open>await\<close>, so that the handlers of other events may run before
  it goes on; \<open>QrEncoded enc\<close> is its second part, run when the encoding is over, which
  assigns \<^verbatim>\<open>qrCodeData\<close>: the data URL (\<open>Some d\<close>), or \<^verbatim>\<open>null\<close> when the encoding
  threw (\<open>None\<close>).
\<close>

datatype lifecycle_event =
    LoadingScreen
  | Qr
  | QrEncoded "string option"
  | Ready
  | Authenticated
  | AuthFailure
  | Disconnected
  | ChangeState

fun on_event :: "lifecycle_event \<Rightarrow> server_state \<Rightarrow> server_state" where
  "on_event LoadingScreen st = st"
| "on_event Qr st = st"
| "on_event (QrEncoded enc) st = st\<lparr>qrCodeData := enc\<rparr>"
| "on_event Ready st = st\<lparr>clientReady := True, qrCodeData := None\<rparr>"
| "on_event Authenticated st = st"
| "on_event AuthFailure st = st\<lparr>clientReady := False, qrCodeData := None\<rparr>"
| "on_event Disconnected st = st\<lparr>clientReady := False, qrCodeData := None\<rparr>"
| "on_event ChangeState st = st"

fun run_events :: "lifecycle_event list \<Rightarrow> server_state \<Rightarrow> server_state" where
  "run_events [] st = st"
| "run_events (e # es) st = run_events es (on_event e st)"

text \<open>The state when the server has started: a client exists, nothing else is set.\<close>

definition initial_state :: server_state where
  "initial_state =
     \<lparr>clientPresent = True, clientReady = False, qrCodeData = None,
      sessionDir = False, pendingInit = 0\<rparr>"

section \<open>Responses\<close>

text \<open>One entry of \<^verbatim>\<open>results\<close> in the batch response.\<close>

record send_result =
  number :: jsvalue
  success :: bool
  messageId :: jsvalue
  error :: jsvalue

text \<open>
  The JSON bodies the handlers send: \<^verbatim>\<open>{success: false, message, error}\<close> (\<open>error\<close>
  absent in the 400 responses), \<^verbatim>\<open>{success: true, message, messageId, to}\<close>,
  \<^verbatim>\<open>{success: true, total, sent, failed, results}\<close> and \<^verbatim>\<open>{success: true, message}\<close>.
\<close>

datatype response_body =
    Failure string "string option"
  | MessageSent string jsvalue string
  | BatchReport (total: nat) (sent: nat) (failed: nat) (reported: "send_result list")
  | Done string

record response =
  status :: nat
  body :: response_body

definition not_connected :: response where
  "not_connected =
     \<lparr>status = 400,
      body = Failure ''WhatsApp belum terhubung. Silakan scan QR Code terlebih dahulu.'' None\<rparr>"

text \<open>The expression \<^verbatim>\<open>result.id._serialized\<close> on the value \<^verbatim>\<open>sendMessage\<close> returned.\<close>

definition message_id :: "jsvalue \<Rightarrow> js_error + jsvalue" where
  "message_id result =
     (case get_prop result ''id'' of
        Inl e \<Rightarrow> Inl e
      | Inr i \<Rightarrow> get_prop i ''_serialized'')"

section \<open>Sending one message\<close>

text \<open>\<^verbatim>\<open>app.post('/api/send-message')\<close>, lines 344 to 386.\<close>

definition send_message ::
  "client \<Rightarrow> server_state \<Rightarrow> jsvalue \<Rightarrow> jsvalue \<Rightarrow> event list \<Rightarrow> response \<times> event list" where
  "send_message cl st num message t =
     (if \<not> clientReady st then (not_connected, t)
      else if \<not> truthy num \<or> \<not> truthy message
        then (\<lparr>status = 400,
               body = Failure ''Parameter number dan message harus diisi'' None\<rparr>, t)
      else
        (case resolveChatId cl num t of
           (TargetError e, t1) \<Rightarrow> (\<lparr>status = 400, body = Failure e None\<rparr>, t1)
         | (Target cid nn d, t1) \<Rightarrow>
             (case cl t1 (SendMessage cid message) of
                Throws e \<Rightarrow>
                  (\<lparr>status = 500, body = Failure ''Gagal mengirim pesan'' (Some e)\<rparr>,
                   t1 @ [Call (SendMessage cid message)])
              | Returns result \<Rightarrow>
                  (case message_id result of
                     Inl err \<Rightarrow>
                       (\<lparr>status = 500,
                         body = Failure ''Gagal mengirim pesan'' (Some (error_message err))\<rparr>,
                        t1 @ [Call (SendMessage cid message)])
                   | Inr mid \<Rightarrow>
                       (\<lparr>status = 200, body = MessageSent ''Pesan berhasil dikirim'' mid nn\<rparr>,
                        t1 @ [Call (SendMessage cid message)])))))"

section \<open>Sending a batch\<close>

text \<open>
  The delay of the batch request is absent (\<open>None\<close>) or an integer, as the API
  documents it. \<^verbatim>\<open>const { delay = 1000 } = req.body\<close> replaces an absent delay, and
  \<^verbatim>\<open>Math.max(100, Math.min(delay || 1000, 10000))\<close> a zero one, by 1000.
\<close>

definition delayMs :: "int option \<Rightarrow> int" where
  "delayMs delay =
     (let d = (case delay of None \<Rightarrow> 1000 | Some v \<Rightarrow> v)
      in max 100 (min (if d \<noteq> 0 then d else 1000) 10000))"

text \<open>
  The parsing of one recipient (lines 506 to 524). A string is sent the shared
  message; an object with truthy \<^verbatim>\<open>number\<close> and \<^verbatim>\<open>message\<close> is sent its own; anything
  else is an invalid entry, reported under \<^verbatim>\<open>recipient?.number || recipient || 'unknown'\<close>.
  \<^verbatim>\<open>typeof null\<close> is \<^verbatim>\<open>'object'\<close>, and \<^verbatim>\<open>recipient.number\<close> then throws.
\<close>

datatype parsed_recipient = SendTo jsvalue jsvalue | InvalidFormat jsvalue

definition invalid_label :: "jsvalue \<Rightarrow> jsvalue" where
  "invalid_label recipient =
     (let n = opt_prop recipient ''number'' in
      if truthy n then n else if truthy recipient then recipient else JStr ''unknown'')"

definition parse_recipient :: "jsvalue \<Rightarrow> jsvalue \<Rightarrow> js_error + parsed_recipient" where
  "parse_recipient message recipient =
     (if typeof recipient = TString then Inr (SendTo recipient message)
      else if typeof recipient = TObject then
        (case get_prop recipient ''number'' of
           Inl e \<Rightarrow> Inl e
         | Inr num \<Rightarrow>
             if \<not> truthy num then Inr (InvalidFormat (invalid_label recipient))
             else
               (case get_prop recipient ''message'' of
                  Inl e \<Rightarrow> Inl e
                | Inr msg \<Rightarrow>
                    if truthy msg then Inr (SendTo num msg)
                    else Inr (InvalidFormat (invalid_label recipient))))
      else Inr (InvalidFormat (invalid_label recipient)))"

definition failed_result :: "jsvalue \<Rightarrow> string \<Rightarrow> send_result" where
  "failed_result num e = \<lparr>number = num, success = False, messageId = JNull, error = JStr e\<rparr>"

text \<open>
  The inner \<^verbatim>\<open>try\<close> block (lines 526 to 563) for one target: resolve, send, and
  after a send that succeeded wait \<open>delay\<close> milliseconds when \<open>notLast\<close> holds
  (\<^verbatim>\<open>i < recipients.length - 1\<close>). Whatever is thrown inside is caught and becomes a
  failed result.
\<close>

definition send_item ::
  "client \<Rightarrow> int \<Rightarrow> bool \<Rightarrow> jsvalue \<Rightarrow> jsvalue \<Rightarrow> event list \<Rightarrow> send_result \<times> event list" where
  "send_item cl delay notLast targetNumber targetMessage t =
     (case resolveChatId cl targetNumber t of
        (TargetError e, t1) \<Rightarrow> (failed_result targetNumber e, t1)
      | (Target cid nn d, t1) \<Rightarrow>
          (case cl t1 (SendMessage cid targetMessage) of
             Throws e \<Rightarrow>
               (failed_result targetNumber e, t1 @ [Call (SendMessage cid targetMessage)])
           | Returns result \<Rightarrow>
               (case message_id result of
                  Inl err \<Rightarrow>
                    (failed_result targetNumber (error_message err),
                     t1 @ [Call (SendMessage cid targetMessage)])
                | Inr mid \<Rightarrow>
                    (\<lparr>number = JStr nn, success = True, messageId = mid, error = JNull\<rparr>,
                     t1 @ [Call (SendMessage cid targetMessage)]
                        @ (if notLast then [Sleep delay] else [])))))"

text \<open>
  The loop variables \<^verbatim>\<open>results\<close>, \<^verbatim>\<open>sentCount\<close> and \<^verbatim>\<open>failedCount\<close>, and the loop
  over the recipients from index \<^verbatim>\<open>i\<close> on: the list is \<^verbatim>\<open>recipients.slice(i)\<close>, so
  that \<^verbatim>\<open>i < recipients.length - 1\<close> says that its tail is not empty. An error thrown
  outside the inner \<^verbatim>\<open>try\<close> leaves the loop (\<open>Inl\<close>) for the outer \<^verbatim>\<open>catch\<close>.
\<close>

record batch_state =
  results :: "send_result list"
  sentCount :: nat
  failedCount :: nat

definition push_result :: "send_result \<Rightarrow> batch_state \<Rightarrow> batch_state" where
  "push_result r b =
     (if success r
      then b\<lparr>results := results b @ [r], sentCount := sentCount b + 1\<rparr>
      else b\<lparr>results := results b @ [r], failedCount := failedCount b + 1\<rparr>)"

fun batch_loop ::
  "client \<Rightarrow> jsvalue \<Rightarrow> int \<Rightarrow> jsvalue list \<Rightarrow> batch_state \<Rightarrow> event list
     \<Rightarrow> (js_error + batch_state) \<times> event list" where
  "batch_loop cl message delay [] b t = (Inr b, t)"
| "batch_loop cl message delay (recipient # rest) b t =
     (case parse_recipient message recipient of
        Inl e \<Rightarrow> (Inl e, t)
      | Inr (InvalidFormat label) \<Rightarrow>
          batch_loop cl message delay rest
            (push_result (failed_result label ''Format recipient tidak valid'') b) t
      | Inr (SendTo targetNumber targetMessage) \<Rightarrow>
          (case send_item cl delay (rest \<noteq> []) targetNumber targetMessage t of
             (r, t1) \<Rightarrow> batch_loop cl message delay rest (push_result r b) t1))"

text \<open>
  What a completed run of the loop over \<open>n\<close> recipients has done, from the loop
  variables \<open>b\<close> and the trace \<open>t\<close> to \<open>b'\<close> and \<open>t'\<close>: it has appended \<open>n\<close>
  results and some effects, one pacing delay of \<open>d\<close> milliseconds for each successful
  result that is not the last one, and it has counted the successful results in
  \<^verbatim>\<open>sentCount\<close> and the others in \<^verbatim>\<open>failedCount\<close>.
\<close>

definition batch_report ::
  "int \<Rightarrow> nat \<Rightarrow> batch_state \<Rightarrow> event list \<Rightarrow> batch_state \<Rightarrow> event list \<Rightarrow> bool" where
  "batch_report d n b t b' t' =
     (let new = drop (length (results b)) (results b'); ext = drop (length t) t' in
      results b' = results b @ new \<and> length new = n \<and> t' = t @ ext
        \<and> filter is_sleep ext = replicate (length (filter success (butlast new))) (Sleep d)
        \<and> sentCount b' = sentCount b + length (filter success new)
        \<and> failedCount b' = failedCount b + length (filter (\<lambda>r. \<not> success r) new))"





text \<open>\<^verbatim>\<open>app.post('/api/send-batch-message')\<close>, lines 465 to 581.\<close>

definition invalid_recipients :: response where
  "invalid_recipients =
     \<lparr>status = 400,
      body = Failure ''Parameter recipients harus berupa array dan tidak boleh kosong'' None\<rparr>"

definition message_required :: response where
  "message_required =
     \<lparr>status = 400,
      body = Failure
        ''Parameter message harus diisi jika recipients adalah array of strings'' None\<rparr>"

definition isStringArray :: "jsvalue list \<Rightarrow> bool" where
  "isStringArray rs = list_all (\<lambda>item. typeof item = TString) rs"

definition send_batch_message ::
  "client \<Rightarrow> server_state \<Rightarrow> jsvalue \<Rightarrow> jsvalue \<Rightarrow> int option \<Rightarrow> event list
     \<Rightarrow> response \<times> event list" where
  "send_batch_message cl st recipients message delay t =
     (if \<not> clientReady st then (not_connected, t)
      else
        (case recipients of
           JArr rs \<Rightarrow>
             if rs = [] then (invalid_recipients, t)
             else if isStringArray rs \<and> \<not> truthy message then (message_required, t)
             else
               (case batch_loop cl message (delayMs delay) rs
                       \<lparr>results = [], sentCount = 0, failedCount = 0\<rparr> t of
                  (Inl e, t1) \<Rightarrow>
                    (\<lparr>status = 500,
                      body = Failure ''Gagal mengirim batch message'' (Some (error_message e))\<rparr>,
                     t1)
                | (Inr b, t1) \<Rightarrow>
                    (\<lparr>status = 200,
                      body = BatchReport (length rs) (sentCount b) (failedCount b) (results b)\<rparr>,
                     t1))
         | _ \<Rightarrow> (invalid_recipients, t)))"

section \<open>Clearing the session\<close>

text \<open>
  \<^verbatim>\<open>app.post('/api/clear-session')\<close>, lines 653 to 691. An error of
  \<^verbatim>\<open>client.destroy()\<close> is caught and logged. \<open>rm\<close> is what \<^verbatim>\<open>fs.rmSync\<close> throws
  when it is called (\<open>None\<close>: it returns); its error reaches the outer \<^verbatim>\<open>catch\<close>,
  and the directory is then taken to be still there.
\<close>

definition clear_session ::
  "client \<Rightarrow> string option \<Rightarrow> server_state \<Rightarrow> event list
     \<Rightarrow> response \<times> server_state \<times> event list" where
  "clear_session cl rm st t =
     (let t1 = (if clientPresent st
                then (case cl t Destroy of
                        Throws e \<Rightarrow> t @ [Call Destroy]
                      | Returns v \<Rightarrow> t @ [Call Destroy])
                else t);
          st1 = st\<lparr>clientReady := False, qrCodeData := None\<rparr>
      in
      if sessionDir st1 \<and> rm \<noteq> None
        then (\<lparr>status = 500, body = Failure ''Gagal menghapus session'' rm\<rparr>, st1, t1)
      else
        (\<lparr>status = 200,
          body = Done
            ''Session berhasil dihapus. QR Code baru akan tersedia dalam beberapa saat.''\<rparr>,
         st1\<lparr>sessionDir := False, pendingInit := pendingInit st1 + 1\<rparr>,
         t1))"

text \<open>Three clients to run the handlers on.\<close>

definition registered_client :: client where
  "registered_client t c =
     (case c of
        GetNumberId n \<Rightarrow> Returns (JObj [(''_serialized'', JStr (n @ ''@c.us''))])
      | SendMessage cid m \<Rightarrow> Returns (JObj [(''id'', JObj [(''_serialized'', JStr ''MSG'')])])
      | Destroy \<Rightarrow> Returns JUndefined)"

definition unregistered_client :: client where
  "unregistered_client t c =
     (case c of
        GetNumberId n \<Rightarrow> Returns JNull
      | SendMessage cid m \<Rightarrow> Returns (JObj [(''id'', JObj [(''_serialized'', JStr ''MSG'')])])
      | Destroy \<Rightarrow> Returns JUndefined)"

definition failing_client :: client where
  "failing_client t c = Throws ''Protocol error''"

section \<open>The pacing delay\<close>

text \<open>
  C5, as the specification has it: the delay is clamped to the interval from 100 to
  10000, and the requested delays 0, 50 and 5000000 give 100, 100 and 10000. On the
  code the requested delay 0 does not give 100.
\<close>

theorem delay_zero_counterexample: "delayMs (Some 0) \<noteq> 100"
  by (simp add: delayMs_def)

text \<open>
  C5, amended: for every requested integer delay, and for an absent one, the effective
  delay lies between 100 and 10000. A delay other than 0 is clamped to that interval,
  so 50 gives 100 and 5000000 gives 10000; the delay 0 is falsy and is replaced by the
  default 1000, as an absent delay is.
\<close>

theorem delay_clamped:
  "100 \<le> delayMs delay \<and> delayMs delay \<le> 10000
   \<and> delayMs (Some d) = (if d = 0 then 1000 else max 100 (min d 10000))
   \<and> delayMs None = 1000
   \<and> delayMs (Some 0) = 1000 \<and> delayMs (Some 50) = 100 \<and> delayMs (Some 5000000) = 10000"
  by (simp add: delayMs_def split: option.split)

section \<open>The readiness guard of the single send\<close>

text \<open>
  C7: while the client is not ready, \<^verbatim>\<open>/api/send-message\<close> answers 400 and makes no
  call of the client at all: the trace of effects is the one it started with,
  whatever the number and the message are.
\<close>

theorem send_message_not_ready:
  "\<not> clientReady st \<Longrightarrow>
     status (fst (send_message cl st num message t)) = 400
     \<and> snd (send_message cl st num message t) = t"
  by (simp add: send_message_def not_connected_def)

theorem send_message_not_ready_witness:
  "\<not> clientReady initial_state
   \<and> status (fst (send_message registered_client initial_state
                     (JStr ''628111'') (JStr ''hi'') [])) = 400
   \<and> snd (send_message registered_client initial_state (JStr ''628111'') (JStr ''hi'') []) = []"
  using send_message_not_ready
          [of initial_state registered_client "JStr ''628111''" "JStr ''hi''" "[]"]
  by (simp add: initial_state_def)

section \<open>Clearing the session when the teardown fails\<close>

text \<open>
  C8: whatever \<^verbatim>\<open>client.destroy()\<close> does, also when it throws, clear-session answers
  200 and the session directory is gone afterwards, provided the removal of the
  directory itself does not throw. The teardown is attempted exactly when a client
  exists.
\<close>

theorem clear_session_succeeds:
  "rm = None \<Longrightarrow>
     status (fst (clear_session cl rm st t)) = 200
     \<and> \<not> sessionDir (fst (snd (clear_session cl rm st t)))
     \<and> snd (snd (clear_session cl rm st t)) = (if clientPresent st then t @ [Call Destroy] else t)"
  by (simp add: clear_session_def Let_def split: reply.split)

theorem clear_session_succeeds_witness:
  "(None :: string option) = None
   \<and> failing_client [] Destroy = Throws ''Protocol error''
   \<and> sessionDir (initial_state\<lparr>sessionDir := True\<rparr>)
   \<and> status (fst (clear_session failing_client None
                     (initial_state\<lparr>sessionDir := True\<rparr>) [])) = 200
   \<and> \<not> sessionDir (fst (snd (clear_session failing_client None
                                  (initial_state\<lparr>sessionDir := True\<rparr>) [])))
   \<and> snd (snd (clear_session failing_client None (initial_state\<lparr>sessionDir := True\<rparr>) []))
       = [Call Destroy]"
  using clear_session_succeeds [of None failing_client "initial_state\<lparr>sessionDir := True\<rparr>" "[]"]
  by (simp add: initial_state_def failing_client_def)

section \<open>The pairing artifact along the lifecycle\<close>

lemma run_events_append: "run_events (es @ fs) st = run_events fs (run_events es st)"
  by (induction es arbitrary: st) simp_all

text \<open>
  C2, as the specification has it: every transition out of the pairing phase, the one
  to authenticated included, clears the QR code data. On the code the data are still
  there after a QR event, the end of its encoding, and the authenticated event.
\<close>

theorem authenticated_keeps_artifact_counterexample:
  "qrCodeData (run_events [Qr, QrEncoded (Some ''data:image/png;base64,AAAA''), Authenticated]
                initial_state) \<noteq> None"
  by (simp add: initial_state_def)

text \<open>
  C2, amended: the QR code data are written by four steps only. The handlers of the
  ready, authentication-failure and disconnected events set them to null; the end of
  the encoding of a QR code stores the encoded code (so a later pairing cycle
  repopulates the data), or null when the encoding failed. The handler of the
  authenticated event leaves them as they were, as do the loading-screen and
  change-state handlers and the arrival of a QR event whose encoding is not over. So
  after any sequence of these steps, however the end of an encoding is interleaved
  with the other handlers, the data are what the last writing step has written.
\<close>

theorem artifact_after_event:
  "qrCodeData (run_events (es @ [e]) st) =
     (case e of
        QrEncoded enc \<Rightarrow> enc
      | Ready \<Rightarrow> None
      | AuthFailure \<Rightarrow> None
      | Disconnected \<Rightarrow> None
      | Authenticated \<Rightarrow> qrCodeData (run_events es st)
      | Qr \<Rightarrow> qrCodeData (run_events es st)
      | LoadingScreen \<Rightarrow> qrCodeData (run_events es st)
      | ChangeState \<Rightarrow> qrCodeData (run_events es st))"
  by (cases e) (simp_all add: run_events_append)

section \<open>Digit-only targets\<close>

text \<open>
  A string of digits has no white space to trim, no \<^verbatim>\<open>@\<close>, and is its own
  normalisation; \<^verbatim>\<open>resolveChatId\<close> then asks the client about exactly that string.
\<close>

lemma strip_leading_none:
  "find (startsWith s) seqs = None \<Longrightarrow> strip_leading seqs s = s"
  by (simp add: strip_leading.simps)

lemma find_startsWith_hd:
  assumes "c \<notin> hd ` set seqs" "[] \<notin> set seqs"
  shows "find (startsWith (c # cs)) seqs = None"
proof -
  have "\<not> startsWith (c # cs) w" if "w \<in> set seqs" for w
  proof (cases w)
    case Nil
    with that assms show ?thesis by simp
  next
    case (Cons d ds)
    with that assms have "d \<noteq> c" by force
    with Cons show ?thesis by (simp add: startsWith_def)
  qed
  then show ?thesis by (auto simp: find_None_iff)
qed

lemma whitespace_seqs_nonempty:
  "[] \<notin> set whitespace_seqs" "[] \<notin> set (map rev whitespace_seqs)"
  by (simp_all add: whitespace_seqs_def)

lemma digit_not_whitespace_hd:
  "is_digit c \<Longrightarrow> c \<notin> hd ` set whitespace_seqs"
  "is_digit c \<Longrightarrow> c \<notin> hd ` set (map rev whitespace_seqs)"
  by (auto simp: is_digit_def whitespace_seqs_def)

lemma strip_leading_digit:
  assumes "is_digit c"
  shows "strip_leading whitespace_seqs (c # cs) = c # cs"
    and "strip_leading (map rev whitespace_seqs) (c # cs) = c # cs"
proof -
  show "strip_leading whitespace_seqs (c # cs) = c # cs"
    by (rule strip_leading_none, rule find_startsWith_hd,
        rule digit_not_whitespace_hd(1) [OF assms], rule whitespace_seqs_nonempty(1))
  show "strip_leading (map rev whitespace_seqs) (c # cs) = c # cs"
    by (rule strip_leading_none, rule find_startsWith_hd,
        rule digit_not_whitespace_hd(2) [OF assms], rule whitespace_seqs_nonempty(2))
qed


lemma strip_leading_Nil:
  "strip_leading whitespace_seqs [] = []"
  "strip_leading (map rev whitespace_seqs) [] = []"
proof -
  have "find (startsWith []) seqs = None" if "[] \<notin> set seqs" for seqs :: "string list"
    using that by (induction seqs) (auto simp: startsWith_def)
  note n = this
  show "strip_leading whitespace_seqs [] = []"
    by (rule strip_leading_none, rule n, rule whitespace_seqs_nonempty(1))
  show "strip_leading (map rev whitespace_seqs) [] = []"
    by (rule strip_leading_none, rule n, rule whitespace_seqs_nonempty(2))
qed

lemma trim_digits:
  assumes "list_all is_digit s"
  shows "trim s = s"
proof (cases s)
  case Nil
  then show ?thesis by (simp add: trim_def strip_leading_Nil)
next
  case (Cons c cs)
  with assms have "is_digit c" by simp
  then have a: "strip_leading whitespace_seqs s = s"
    using Cons by (simp add: strip_leading_digit)
  from Cons obtain d ds where r: "rev s = d # ds" by (cases "rev s") auto
  then have "d \<in> set (rev s)" by simp
  then have "d \<in> set s" by simp
  with assms have "is_digit d" by (simp add: list_all_iff)
  then have "strip_leading (map rev whitespace_seqs) (rev s) = rev s"
    using r by (simp add: strip_leading_digit)
  with a show ?thesis by (simp add: trim_def)
qed


lemma at_not_digit:
  assumes "list_all is_digit s"
  shows "CHR ''@'' \<notin> set s"
proof
  assume "CHR ''@'' \<in> set s"
  with assms have "is_digit (CHR ''@'')" by (simp add: list_all_iff)
  then show False by (simp add: is_digit_def)
qed

lemma remove_first_absent:
  "CHR ''@'' \<notin> set s \<Longrightarrow> remove_first ''@c.us'' s = s"
  by (induction s) (auto simp: startsWith_def)

lemma filter_digits: "list_all is_digit s \<Longrightarrow> filter is_digit s = s"
  by (induction s) auto


lemma parse_digits:
  assumes "s \<noteq> []" "list_all is_digit s"
  shows "parseChatTarget (JStr s) = Target (JStr (s @ ''@c.us'')) s (Some True)"
  using assms
  by (simp add: parseChatTarget_def trim_digits at_not_digit filter_digits)

lemma resolve_digits:
  assumes "s \<noteq> []" "list_all is_digit s"
  shows "resolveChatId cl (JStr s) t =
     (case cl t (GetNumberId s) of
        Throws e \<Rightarrow> (Target (JStr (s @ ''@c.us'')) s None, t @ [Call (GetNumberId s)])
      | Returns numberId \<Rightarrow>
          (let serialized =
             (if typeof numberId = TString then numberId else opt_prop numberId ''_serialized'')
           in
           if \<not> truthy serialized
             then (TargetError (''Nomor '' @ s @ '' tidak terdaftar di WhatsApp''),
                   t @ [Call (GetNumberId s)])
             else (Target serialized s None, t @ [Call (GetNumberId s)])))"
  using assms
  by (simp add: resolveChatId_def parse_digits at_not_digit remove_first_absent filter_digits)

text \<open>
  C4: for a target that is a non-empty string of digits, a lookup that throws makes
  the resolution fall back to the number followed by \<^verbatim>\<open>@c.us\<close> (it fails open),
  and a lookup that returns \<^verbatim>\<open>null\<close> or \<^verbatim>\<open>undefined\<close> gives the error that the
  number is not registered. In both cases the lookup is the only call made.
\<close>

theorem lookup_failure_fails_open:
  assumes "s \<noteq> []" and "list_all is_digit s"
  shows "(cl t (GetNumberId s) = Throws e \<longrightarrow>
            resolveChatId cl (JStr s) t =
              (Target (JStr (s @ ''@c.us'')) s None, t @ [Call (GetNumberId s)]))
       \<and> (cl t (GetNumberId s) = Returns JNull \<or> cl t (GetNumberId s) = Returns JUndefined \<longrightarrow>
            resolveChatId cl (JStr s) t =
              (TargetError (''Nomor '' @ s @ '' tidak terdaftar di WhatsApp''),
               t @ [Call (GetNumberId s)]))"
proof (intro conjI impI)
  assume "cl t (GetNumberId s) = Throws e"
  then show "resolveChatId cl (JStr s) t =
      (Target (JStr (s @ ''@c.us'')) s None, t @ [Call (GetNumberId s)])"
    by (simp add: resolve_digits [OF assms])
next
  assume "cl t (GetNumberId s) = Returns JNull \<or> cl t (GetNumberId s) = Returns JUndefined"
  then show "resolveChatId cl (JStr s) t =
      (TargetError (''Nomor '' @ s @ '' tidak terdaftar di WhatsApp''),
       t @ [Call (GetNumberId s)])"
    by (elim disjE) (simp_all add: resolve_digits [OF assms])
qed

theorem lookup_failure_fails_open_witness:
  "''628111'' \<noteq> [] \<and> list_all is_digit ''628111''
   \<and> failing_client [] (GetNumberId ''628111'') = Throws ''Protocol error''
   \<and> resolveChatId failing_client (JStr ''628111'') [] =
       (Target (JStr ''628111@c.us'') ''628111'' None, [Call (GetNumberId ''628111'')])
   \<and> unregistered_client [] (GetNumberId ''628111'') = Returns JNull
   \<and> resolveChatId unregistered_client (JStr ''628111'') [] =
       (TargetError ''Nomor 628111 tidak terdaftar di WhatsApp'', [Call (GetNumberId ''628111'')])"
proof -
  have d: "''628111'' \<noteq> []" "list_all is_digit ''628111''"
    by (simp_all add: is_digit_def)
  have f: "failing_client [] (GetNumberId ''628111'') = Throws ''Protocol error''"
    by (simp add: failing_client_def)
  have u: "unregistered_client [] (GetNumberId ''628111'') = Returns JNull"
    by (simp add: unregistered_client_def)
  from lookup_failure_fails_open [OF d, of failing_client "[]" "''Protocol error''"] f
  have 1: "resolveChatId failing_client (JStr ''628111'') [] =
       (Target (JStr ''628111@c.us'') ''628111'' None, [Call (GetNumberId ''628111'')])"
    by simp
  from lookup_failure_fails_open [OF d, of unregistered_client "[]"] u
  have 2: "resolveChatId unregistered_client (JStr ''628111'') [] =
       (TargetError ''Nomor 628111 tidak terdaftar di WhatsApp'', [Call (GetNumberId ''628111'')])"
    by simp
  from d f u 1 2 show ?thesis by blast
qed

section \<open>Normalising a formatted number\<close>

text \<open>
  C9, as the specification has it: resolving \<^verbatim>\<open>+62 812-3456-7890\<close> yields the
  normalised number \<^verbatim>\<open>628123456789 0\<close>, with a space before the last digit. On the
  code the normalised number has no space.
\<close>

theorem normalized_number_counterexample:
  "normalizedNumber (fst (resolveChatId registered_client (JStr ''+62 812-3456-7890'') []))
     \<noteq> ''628123456789 0''"
  by code_simp

lemma parse_example:
  "parseChatTarget (JStr ''+62 812-3456-7890'') =
     Target (JStr ''6281234567890@c.us'') ''6281234567890'' (Some True)"
  by code_simp

lemma example_digits: "''6281234567890'' \<noteq> []" "list_all is_digit ''6281234567890''"
  by (simp_all add: is_digit_def)

lemma parse_example_digits:
  "parseChatTarget (JStr ''+62 812-3456-7890'') = parseChatTarget (JStr ''6281234567890'')"
  by (simp only: parse_example parse_digits [OF example_digits] append.simps)

lemma resolve_example:
  "resolveChatId cl (JStr ''+62 812-3456-7890'') t = resolveChatId cl (JStr ''6281234567890'') t"
  by (simp only: resolveChatId_def parse_example_digits)

text \<open>
  C9, amended: \<^verbatim>\<open>+62 812-3456-7890\<close> is parsed to the normalised number
  \<^verbatim>\<open>6281234567890\<close>, every character that is not a digit being removed, and whenever
  its resolution gives a target that target carries this number (the only error it
  can give is that the number is not registered). Normalisation is idempotent, and
  resolving the normalised digits gives the same result as resolving the formatted
  input.
\<close>

theorem normalized_number_example:
  "parseChatTarget (JStr ''+62 812-3456-7890'') =
     Target (JStr ''6281234567890@c.us'') ''6281234567890'' (Some True)
   \<and> (case fst (resolveChatId cl (JStr ''+62 812-3456-7890'') t) of
         TargetError e \<Rightarrow> e = ''Nomor 6281234567890 tidak terdaftar di WhatsApp''
       | Target cid nn d \<Rightarrow> nn = ''6281234567890'')
   \<and> normalizePhoneNumber (JStr (normalizePhoneNumber v)) = normalizePhoneNumber v
   \<and> resolveChatId cl (JStr ''6281234567890'') t = resolveChatId cl (JStr ''+62 812-3456-7890'') t"
proof (intro conjI)
  show "parseChatTarget (JStr ''+62 812-3456-7890'') =
     Target (JStr ''6281234567890@c.us'') ''6281234567890'' (Some True)"
    by (rule parse_example)
  have "case fst (resolveChatId cl (JStr ''6281234567890'') t) of
         TargetError e \<Rightarrow> e = ''Nomor '' @ ''6281234567890'' @ '' tidak terdaftar di WhatsApp''
       | Target cid nn d \<Rightarrow> nn = ''6281234567890''"
    unfolding resolve_digits [OF example_digits]
    by (simp add: Let_def split: reply.split)
  then show "case fst (resolveChatId cl (JStr ''+62 812-3456-7890'') t) of
         TargetError e \<Rightarrow> e = ''Nomor 6281234567890 tidak terdaftar di WhatsApp''
       | Target cid nn d \<Rightarrow> nn = ''6281234567890''"
    by (simp only: resolve_example append.simps)
  show "normalizePhoneNumber (JStr (normalizePhoneNumber v)) = normalizePhoneNumber v"
    by (cases v) simp_all
  show "resolveChatId cl (JStr ''6281234567890'') t = resolveChatId cl (JStr ''+62 812-3456-7890'') t"
    by (simp only: resolve_example)
qed

section \<open>Identifiers that contain an at sign\<close>

text \<open>
  C3, as the specification has it: an input that contains \<^verbatim>\<open>@\<close> is never looked up
  and comes back unchanged as the chat identifier. On the code an input that ends
  with \<^verbatim>\<open>@c.us\<close> is a direct user and is looked up (here the number is not
  registered, and the resolution fails); and an input with white space around it
  comes back trimmed.
\<close>

theorem lookup_despite_at_counterexample:
  "CHR ''@'' \<in> set ''628111@c.us''
   \<and> resolveChatId unregistered_client (JStr ''628111@c.us'') [] =
       (TargetError ''Nomor 628111 tidak terdaftar di WhatsApp'', [Call (GetNumberId ''628111'')])
   \<and> CHR ''@'' \<in> set '' 120363@g.us''
   \<and> chatId (fst (resolveChatId failing_client (JStr '' 120363@g.us'') []))
       \<noteq> JStr '' 120363@g.us''"
  by code_simp

lemma strip_leading_keeps:
  assumes "c \<notin> \<Union> (set ` set seqs)" "c \<in> set s"
  shows "c \<in> set (strip_leading seqs s)"
  using assms
proof (induction seqs s rule: strip_leading.induct)
  case (1 seqs s)
  show ?case
  proof (cases "find (startsWith s) seqs")
    case None
    with 1 show ?thesis by (simp add: strip_leading.simps)
  next
    case (Some w)
    show ?thesis
    proof (cases "w = []")
      case True
      with Some 1 show ?thesis by (simp add: strip_leading.simps)
    next
      case False
      from Some have w: "w \<in> set seqs" "startsWith s w" by (auto simp: find_Some_iff)
      then have "s = w @ drop (length w) s"
        by (metis append_take_drop_id startsWith_def)
      then have "set s = set w \<union> set (drop (length w) s)" by (metis set_append)
      moreover from w "1.prems" have "c \<notin> set w" by auto
      ultimately have "c \<in> set (drop (length w) s)" using "1.prems" by auto
      with "1.IH" [OF Some False "1.prems"(1)] have "c \<in> set (strip_leading seqs (drop (length w) s))" .
      with Some False show ?thesis by (simp add: strip_leading.simps)
    qed
  qed
qed

lemma at_not_whitespace:
  "CHR ''@'' \<notin> \<Union> (set ` set whitespace_seqs)"
  "CHR ''@'' \<notin> \<Union> (set ` set (map rev whitespace_seqs))"
  by (simp_all add: whitespace_seqs_def)

lemma trim_keeps_at:
  assumes "CHR ''@'' \<in> set s"
  shows "CHR ''@'' \<in> set (trim s)"
proof -
  from assms have "CHR ''@'' \<in> set (rev (strip_leading whitespace_seqs s))"
    by (simp add: strip_leading_keeps [OF at_not_whitespace(1)])
  then have "CHR ''@'' \<in> set (strip_leading (map rev whitespace_seqs) (rev (strip_leading whitespace_seqs s)))"
    by (rule strip_leading_keeps [OF at_not_whitespace(2)])
  then show ?thesis by (simp add: trim_def)
qed

text \<open>
  C3, amended: for every input string that contains \<^verbatim>\<open>@\<close> and whose trimmed form
  does not end with \<^verbatim>\<open>@c.us\<close> (a group, broadcast or newsletter identifier), the
  resolution makes no call of the client and returns the trimmed input as the chat
  identifier; that is the input itself when it has no white space at its ends.
\<close>

theorem group_id_used_as_is:
  assumes "CHR ''@'' \<in> set s" and "\<not> endsWith (trim s) ''@c.us''"
  shows "resolveChatId cl (JStr s) t = (Target (JStr (trim s)) (trim s) (Some False), t)"
proof -
  from assms(1) have a: "CHR ''@'' \<in> set (trim s)" by (rule trim_keeps_at)
  then have "trim s \<noteq> []" by auto
  with a assms(2) have "parseChatTarget (JStr s) = Target (JStr (trim s)) (trim s) (Some False)"
    by (simp add: parseChatTarget_def Let_def)
  then show ?thesis by (simp add: resolveChatId_def)
qed

theorem group_id_used_as_is_witness:
  "CHR ''@'' \<in> set ''120363041234567890@g.us''
   \<and> \<not> endsWith (trim ''120363041234567890@g.us'') ''@c.us''
   \<and> trim ''120363041234567890@g.us'' = ''120363041234567890@g.us''
   \<and> resolveChatId failing_client (JStr ''120363041234567890@g.us'') [] =
       (Target (JStr ''120363041234567890@g.us'') ''120363041234567890@g.us'' (Some False), [])"
proof -
  have t: "trim ''120363041234567890@g.us'' = ''120363041234567890@g.us''" by code_simp
  have a: "CHR ''@'' \<in> set ''120363041234567890@g.us''" by simp
  have e: "\<not> endsWith (trim ''120363041234567890@g.us'') ''@c.us''"
    unfolding t by code_simp
  from group_id_used_as_is [OF a e, of failing_client "[]"] t a e show ?thesis by simp
qed

section \<open>The batch loop\<close>

text \<open>
  The resolver and the inner \<^verbatim>\<open>try\<close> block only append to the trace; the pacing
  delay is appended exactly after a send that succeeded on an item that is not the
  last. Only \<^verbatim>\<open>null\<close> makes the parsing of a recipient throw.
\<close>

lemma resolve_trace:
  assumes "resolveChatId cl v t = (tg, t1)"
  shows "\<exists>ext. t1 = t @ ext \<and> filter is_sleep ext = []"
  using assms
  by (auto simp: resolveChatId_def Let_def split: chat_target.splits if_splits reply.splits)

lemma send_item_effects:
  assumes "send_item cl d nl n m t = (r, t1)"
  shows "\<exists>ext. t1 = t @ ext \<and> filter is_sleep ext = (if success r \<and> nl then [Sleep d] else [])"
proof -
  obtain tg t0 where res: "resolveChatId cl n t = (tg, t0)" by (cases "resolveChatId cl n t")
  from resolve_trace [OF res] obtain e0 where e0: "t0 = t @ e0" "filter is_sleep e0 = []" by blast
  show ?thesis
  proof (cases tg)
    case (TargetError e)
    with assms res e0 show ?thesis by (auto simp: send_item_def failed_result_def)
  next
    case (Target cid nn dd)
    show ?thesis
    proof (cases "cl t0 (SendMessage cid m)")
      case (Throws e)
      with assms res e0 Target show ?thesis by (auto simp: send_item_def failed_result_def)
    next
      case (Returns result)
      show ?thesis
      proof (cases "message_id result")
        case (Inl err)
        with assms res e0 Target Returns show ?thesis
          by (auto simp: send_item_def failed_result_def)
      next
        case (Inr mid)
        with assms res e0 Target Returns show ?thesis
          by (auto simp: send_item_def)
      qed
    qed
  qed
qed

lemma push_result_fields:
  "results (push_result r b) = results b @ [r]"
  "sentCount (push_result r b) = sentCount b + (if success r then 1 else 0)"
  "failedCount (push_result r b) = failedCount b + (if success r then 0 else 1)"
  by (simp_all add: push_result_def)

lemma parse_recipient_throws:
  "parse_recipient m r = Inl e \<Longrightarrow> r = JNull"
  by (cases r) (auto simp: parse_recipient_def split: if_splits option.splits sum.splits)

lemma batch_report_iff:
  "batch_report d n b t b' t' =
     (\<exists>new ext. results b' = results b @ new \<and> length new = n \<and> t' = t @ ext
        \<and> filter is_sleep ext = replicate (length (filter success (butlast new))) (Sleep d)
        \<and> sentCount b' = sentCount b + length (filter success new)
        \<and> failedCount b' = failedCount b + length (filter (\<lambda>r. \<not> success r) new))"
  (is "?l = ?r")
proof
  assume ?l
  then show ?r unfolding batch_report_def Let_def by blast
next
  assume ?r
  then obtain new ext where n: "results b' = results b @ new" "length new = n" "t' = t @ ext"
    "filter is_sleep ext = replicate (length (filter success (butlast new))) (Sleep d)"
    "sentCount b' = sentCount b + length (filter success new)"
    "failedCount b' = failedCount b + length (filter (\<lambda>r. \<not> success r) new)"
    by blast
  from n(1) have d1: "drop (length (results b)) (results b') = new" by simp
  from n(3) have d2: "drop (length t) t' = ext" by simp
  from n show ?l unfolding batch_report_def Let_def d1 d2 by simp
qed

lemma batch_report_step:
  assumes rest: "batch_report d (length rest) (push_result r b) (t @ e1) b' t'"
    and e1: "filter is_sleep e1 = (if success r \<and> rest \<noteq> [] then [Sleep d] else [])"
  shows "batch_report d (Suc (length rest)) b t b' t'"
proof -
  from rest obtain new ext where n:
    "results b' = results (push_result r b) @ new" "length new = length rest"
    "t' = (t @ e1) @ ext"
    "filter is_sleep ext = replicate (length (filter success (butlast new))) (Sleep d)"
    "sentCount b' = sentCount (push_result r b) + length (filter success new)"
    "failedCount b' = failedCount (push_result r b) + length (filter (\<lambda>r. \<not> success r) new)"
    unfolding batch_report_iff by blast
  from n(2) have ne: "(new = []) = (rest = [])" by auto
  have "filter is_sleep (e1 @ ext) =
      replicate (length (filter success (butlast (r # new)))) (Sleep d)"
  proof (cases "rest = []")
    case True
    with ne have "new = []" by simp
    with True e1 n(4) show ?thesis by simp
  next
    case False
    with ne have "new \<noteq> []" by simp
    with False e1 n(4) show ?thesis by simp
  qed
  moreover have "results b' = results b @ (r # new)"
    using n(1) by (simp add: push_result_fields)
  moreover have "t' = t @ (e1 @ ext)" using n(3) by simp
  moreover have "sentCount b' = sentCount b + length (filter success (r # new))"
    using n(5) by (simp add: push_result_fields)
  moreover have "failedCount b' = failedCount b + length (filter (\<lambda>r. \<not> success r) (r # new))"
    using n(6) by (simp add: push_result_fields)
  moreover have "length (r # new) = Suc (length rest)" using n(2) by simp
  ultimately show ?thesis unfolding batch_report_iff by blast
qed

lemma batch_loop_report:
  assumes "batch_loop cl m d rs b t = (Inr b', t')"
  shows "batch_report d (length rs) b t b' t'"
  using assms
proof (induction rs arbitrary: b t)
  case Nil
  then show ?case by (simp add: batch_report_iff)
next
  case (Cons r rest)
  show ?case
  proof (cases "parse_recipient m r")
    case (Inl e)
    with Cons.prems show ?thesis by simp
  next
    case (Inr p)
    show ?thesis
    proof (cases p)
      case (InvalidFormat label)
      let ?fr = "failed_result label ''Format recipient tidak valid''"
      from Cons.prems Inr InvalidFormat
      have "batch_loop cl m d rest (push_result ?fr b) (t @ []) = (Inr b', t')" by simp
      then have "batch_report d (length rest) (push_result ?fr b) (t @ []) b' t'"
        by (rule Cons.IH)
      moreover have "filter is_sleep [] = (if success ?fr \<and> rest \<noteq> [] then [Sleep d] else [])"
        by (simp add: failed_result_def)
      ultimately have "batch_report d (Suc (length rest)) b t b' t'"
        by (rule batch_report_step)
      then show ?thesis by simp
    next
      case (SendTo n msg)
      obtain r0 t1 where si: "send_item cl d (rest \<noteq> []) n msg t = (r0, t1)"
        by (cases "send_item cl d (rest \<noteq> []) n msg t")
      from send_item_effects [OF si] obtain e1 where e1: "t1 = t @ e1"
        "filter is_sleep e1 = (if success r0 \<and> rest \<noteq> [] then [Sleep d] else [])" by blast
      from Cons.prems Inr SendTo si e1
      have "batch_loop cl m d rest (push_result r0 b) (t @ e1) = (Inr b', t')" by simp
      then have "batch_report d (length rest) (push_result r0 b) (t @ e1) b' t'"
        by (rule Cons.IH)
      then have "batch_report d (Suc (length rest)) b t b' t'"
        using e1(2) by (rule batch_report_step)
      then show ?thesis by simp
    qed
  qed
qed

lemma batch_loop_completes:
  assumes "JNull \<notin> set rs"
  shows "\<exists>b' t'. batch_loop cl m d rs b t = (Inr b', t')"
  using assms
proof (induction rs arbitrary: b t)
  case Nil
  then show ?case by simp
next
  case (Cons r rest)
  then have r: "r \<noteq> JNull" and rest: "JNull \<notin> set rest" by auto
  show ?case
  proof (cases "parse_recipient m r")
    case (Inl e)
    with r parse_recipient_throws show ?thesis by blast
  next
    case (Inr p)
    show ?thesis
    proof (cases p)
      case (InvalidFormat label)
      with Inr Cons.IH [OF rest] show ?thesis by simp
    next
      case (SendTo n msg)
      obtain r0 t1 where "send_item cl d (rest \<noteq> []) n msg t = (r0, t1)"
        by (cases "send_item cl d (rest \<noteq> []) n msg t")
      with Inr SendTo Cons.IH [OF rest] show ?thesis by simp
    qed
  qed
qed









section \<open>One result for each recipient\<close>

text \<open>
  C1: every batch request that passes the precondition checks gets one result for
  each recipient, and the counts add up. The code breaks this on a recipient that is
  \<^verbatim>\<open>null\<close>: \<^verbatim>\<open>typeof null\<close> is \<^verbatim>\<open>'object'\<close>, so \<^verbatim>\<open>recipient.number\<close> is read and
  throws outside the inner \<^verbatim>\<open>try\<close>; the request passes the checks and is answered
  500 without any result, also when messages of earlier recipients have been sent.
\<close>

theorem null_recipient_aborts_batch:
  "send_batch_message cl (on_event Ready st) (JArr [JNull]) (JStr ''hi'') delay t =
     (\<lparr>status = 500,
       body = Failure ''Gagal mengirim batch message''
                (Some (error_message (TypeError JNull ''number'')))\<rparr>, t)
   \<and> send_batch_message registered_client (on_event Ready initial_state)
        (JArr [JStr ''628111'', JNull, JStr ''628222'']) (JStr ''hi'') (Some 500) [] =
     (\<lparr>status = 500,
       body = Failure ''Gagal mengirim batch message''
                (Some (error_message (TypeError JNull ''number'')))\<rparr>,
      [Call (GetNumberId ''628111''),
       Call (SendMessage (JStr ''628111@c.us'') (JStr ''hi'')), Sleep 500])"
proof
  show "send_batch_message cl (on_event Ready st) (JArr [JNull]) (JStr ''hi'') delay t =
     (\<lparr>status = 500,
       body = Failure ''Gagal mengirim batch message''
                (Some (error_message (TypeError JNull ''number'')))\<rparr>, t)"
    by (simp add: send_batch_message_def isStringArray_def parse_recipient_def)
  show "send_batch_message registered_client (on_event Ready initial_state)
        (JArr [JStr ''628111'', JNull, JStr ''628222'']) (JStr ''hi'') (Some 500) [] =
     (\<lparr>status = 500,
       body = Failure ''Gagal mengirim batch message''
                (Some (error_message (TypeError JNull ''number'')))\<rparr>,
      [Call (GetNumberId ''628111''),
       Call (SendMessage (JStr ''628111@c.us'') (JStr ''hi'')), Sleep 500])"
    by code_simp
qed

text \<open>
  Without a \<^verbatim>\<open>null\<close> among the recipients the loop completes: the response is 200,
  it reports the number of recipients as total, as many results, and counts of sent
  and failed that add up to it.
\<close>

lemma batch_counts_without_null:
  assumes "clientReady st" "rs \<noteq> []" "JNull \<notin> set rs"
    and "\<not> (isStringArray rs \<and> \<not> truthy message)"
  shows "\<exists>s f res. fst (send_batch_message cl st (JArr rs) message delay t) =
           \<lparr>status = 200, body = BatchReport (length rs) s f res\<rparr>
         \<and> length res = length rs \<and> s + f = length rs"
proof -
  let ?b = "\<lparr>results = [], sentCount = 0, failedCount = 0\<rparr>"
  from batch_loop_completes [OF assms(3)] obtain b' t'
    where l: "batch_loop cl message (delayMs delay) rs ?b t = (Inr b', t')" by blast
  from batch_loop_report [OF l] obtain new where
    n: "results b' = new" "length new = length rs"
       "sentCount b' = length (filter success new)"
       "failedCount b' = length (filter (\<lambda>r. \<not> success r) new)"
    unfolding batch_report_iff by auto
  have "sentCount b' + failedCount b' = length rs"
    using n by (simp add: sum_length_filter_compl)
  moreover have "fst (send_batch_message cl st (JArr rs) message delay t) =
      \<lparr>status = 200, body = BatchReport (length rs) (sentCount b') (failedCount b') (results b')\<rparr>"
    using assms l by (auto simp: send_batch_message_def)
  ultimately show ?thesis using n by blast
qed

section \<open>Where the pacing delay is inserted\<close>





section \<open>A mixed array without a shared message\<close>





end
